theory Spec2Isabelle
  imports Main "HOL-Library.Sublist"
begin

section \<open>Strings, numbers and the clock\<close>

text \<open>
  A Python \<open>str\<close> is represented by the bytes of its UTF-8 encoding, as a HOL
  \<open>string\<close>: ASCII characters are single \<open>char\<close>s below \<open>0x80\<close>, any other code
  point is a sequence of two to four \<open>char\<close>s. With this representation
  \<open>s.encode("utf-8")\<close> is the identity and \<open>b.decode("utf-8")\<close> is a validity check.
\<close>

abbreviation CR :: char where "CR \<equiv> CHR 0x0D"
abbreviation LF :: char where "LF \<equiv> CHR 0x0A"
abbreviation BSL :: char where "BSL \<equiv> CHR 0x5C"

text \<open>\<open>sep.join(xs)\<close> and \<open>s.split(c)\<close> for a one-character separator.\<close>

fun join :: "string \<Rightarrow> string list \<Rightarrow> string" where
  "join sep [] = []"
| "join sep [x] = x"
| "join sep (x # y # ys) = x @ sep @ join sep (y # ys)"

fun split_on :: "char \<Rightarrow> string \<Rightarrow> string list" where
  "split_on sep [] = [[]]"
| "split_on sep (c # cs) =
     (if c = sep then [] # split_on sep cs
      else (case split_on sep cs of
              [] \<Rightarrow> [[c]]
            | f # fs \<Rightarrow> (c # f) # fs))"

text \<open>\<open>s.replace(c, r)\<close> for a one-character pattern \<open>c\<close>.\<close>

fun replace_char :: "char \<Rightarrow> string \<Rightarrow> string \<Rightarrow> string" where
  "replace_char c r [] = []"
| "replace_char c r (x # xs) = (if x = c then r @ replace_char c r xs else x # replace_char c r xs)"

text \<open>Decimal rendering of a natural number and of an integer (\<open>str(n)\<close>).\<close>

definition digit_char :: "nat \<Rightarrow> char" where
  "digit_char d = ''0123456789'' ! d"

fun str_nat :: "nat \<Rightarrow> string" where
  "str_nat n = (if n < 10 then [digit_char n] else str_nat (n div 10) @ [digit_char (n mod 10)])"

declare str_nat.simps [simp del]

definition str_int :: "int \<Rightarrow> string" where
  "str_int i = (if i < 0 then CHR ''-'' # str_nat (nat (- i)) else str_nat (nat i))"

text \<open>Zero padding on the left to a minimal width, as \<open>strftime\<close> does for its numeric fields.\<close>

definition zpad :: "nat \<Rightarrow> string \<Rightarrow> string" where
  "zpad w s = replicate (w - length s) (CHR ''0'') @ s"

text \<open>
  The value of \<open>datetime.now(timezone.utc)\<close> is an input of the model. \<open>%Y\<close> is rendered
  with four digits, \<open>%m %d %H %M %S\<close> with two and \<open>%f\<close> with six.
\<close>

record datetime =
  year :: nat
  month :: nat
  day :: nat
  hour :: nat
  minute :: nat
  second :: nat
  microsecond :: nat


definition fmt_Y :: "datetime \<Rightarrow> string" where "fmt_Y d = zpad 4 (str_nat (year d))"
definition fmt_m :: "datetime \<Rightarrow> string" where "fmt_m d = zpad 2 (str_nat (month d))"
definition fmt_d :: "datetime \<Rightarrow> string" where "fmt_d d = zpad 2 (str_nat (day d))"
definition fmt_H :: "datetime \<Rightarrow> string" where "fmt_H d = zpad 2 (str_nat (hour d))"
definition fmt_M :: "datetime \<Rightarrow> string" where "fmt_M d = zpad 2 (str_nat (minute d))"
definition fmt_S :: "datetime \<Rightarrow> string" where "fmt_S d = zpad 2 (str_nat (second d))"
definition fmt_f :: "datetime \<Rightarrow> string" where "fmt_f d = zpad 6 (str_nat (microsecond d))"

text \<open>\<open>now.strftime("%Y%m%d%H%M%S")\<close> and \<open>now.strftime("%Y%m%d%H%M%S%f")\<close>.\<close>

definition strftime_compact :: "datetime \<Rightarrow> string" where
  "strftime_compact d = fmt_Y d @ fmt_m d @ fmt_d d @ fmt_H d @ fmt_M d @ fmt_S d"

definition strftime_compact_f :: "datetime \<Rightarrow> string" where
  "strftime_compact_f d = strftime_compact d @ fmt_f d"


section \<open>HL7v2 builders\<close>

subsection \<open>MDM T02 (mdm-builder.py)\<close>

definition FIELD_SEP :: string where "FIELD_SEP = ''|''"
definition ENCODING_CHARS :: string where "ENCODING_CHARS = ''^~'' @ [BSL] @ ''&''"

text \<open>
  \<open>transcript.replace("|", "\\F\\").replace("\r", " ").replace("\n", " ")\<close>, the three
  replacements in the order of the source.
\<close>

definition hl7_safe :: "string \<Rightarrow> string" where
  "hl7_safe transcript =
     replace_char LF '' '' (replace_char CR '' '' (replace_char (CHR ''|'') [BSL, CHR ''F'', BSL] transcript))"

definition mdm_msh :: "string \<Rightarrow> string \<Rightarrow> string \<Rightarrow> string \<Rightarrow> string \<Rightarrow> string \<Rightarrow> string" where
  "mdm_msh ts msg_id sending_app sending_facility receiving_app receiving_facility =
     ''MSH'' @ FIELD_SEP @ ENCODING_CHARS @ FIELD_SEP @ sending_app @ FIELD_SEP @ sending_facility @ FIELD_SEP
     @ receiving_app @ FIELD_SEP @ receiving_facility @ FIELD_SEP @ ts @ FIELD_SEP @ FIELD_SEP
     @ ''MDM^T02'' @ FIELD_SEP @ msg_id @ FIELD_SEP @ ''P'' @ FIELD_SEP @ ''2.5.1''"

definition mdm_evn :: "string \<Rightarrow> string" where
  "mdm_evn ts = ''EVN||'' @ ts"

definition mdm_pid :: "string \<Rightarrow> string" where
  "mdm_pid patient_id = ''PID|1||'' @ patient_id @ ''^^^MRN||LastName^FirstName|||U''"

definition mdm_pv1 :: "string \<Rightarrow> string \<Rightarrow> string" where
  "mdm_pv1 visit_id provider_npi =
     ''PV1|1|I|^^^WARD^^BED||||||'' @ provider_npi @ ''^Provider^Name||||||||'' @ visit_id"

definition mdm_txa :: "string \<Rightarrow> string \<Rightarrow> string \<Rightarrow> string" where
  "mdm_txa ts doc_id provider_npi =
     ''TXA|1|PN^Progress Note|TX|'' @ ts @ ''|'' @ provider_npi @ ''^Provider^Name|''
     @ ts @ ''|'' @ ts @ ''||'' @ doc_id @ ''||'' @ doc_id @ ''|AU||AV''"

definition mdm_obx :: "string \<Rightarrow> string" where
  "mdm_obx transcript = ''OBX|1|TX|18842-5^Discharge summary^LN||'' @ hl7_safe transcript @ ''||||||F''"

text \<open>\<open>document_id or f"DOC..."\<close>: \<open>None\<close> and the empty string both give the generated id.\<close>

definition mdm_doc_id :: "datetime \<Rightarrow> string option \<Rightarrow> string" where
  "mdm_doc_id now document_id =
     (case document_id of
        None \<Rightarrow> ''DOC'' @ take 18 (strftime_compact_f now)
      | Some d \<Rightarrow> if d = [] then ''DOC'' @ take 18 (strftime_compact_f now) else d)"

definition hl7_msg_id :: "datetime \<Rightarrow> string" where
  "hl7_msg_id now = ''MSG'' @ take 18 (strftime_compact_f now)"

subsection \<open>ORU R01 (oru-builder.py)\<close>

definition oru_msh :: "string \<Rightarrow> string \<Rightarrow> string \<Rightarrow> string \<Rightarrow> string \<Rightarrow> string \<Rightarrow> string" where
  "oru_msh ts msg_id sending_app sending_facility receiving_app receiving_facility =
     ''MSH'' @ FIELD_SEP @ ENCODING_CHARS @ FIELD_SEP @ sending_app @ FIELD_SEP @ sending_facility @ FIELD_SEP
     @ receiving_app @ FIELD_SEP @ receiving_facility @ FIELD_SEP @ ts @ FIELD_SEP @ FIELD_SEP
     @ ''ORU^R01'' @ FIELD_SEP @ msg_id @ FIELD_SEP @ ''P'' @ FIELD_SEP @ ''2.5.1''"

definition oru_pid :: "string \<Rightarrow> string" where
  "oru_pid patient_id = ''PID|1||'' @ patient_id @ ''^^^MRN||LastName^FirstName|||U''"

definition oru_obr :: "string \<Rightarrow> string \<Rightarrow> string \<Rightarrow> string \<Rightarrow> string \<Rightarrow> string" where
  "oru_obr order_id ts provider_npi loinc_code loinc_display =
     ''OBR|1|'' @ order_id @ ''||'' @ loinc_code @ ''^'' @ loinc_display @ ''^LN|||'' @ ts @ ''|||''
     @ provider_npi @ ''^Provider^Name''"

definition oru_obx :: "string \<Rightarrow> string \<Rightarrow> string \<Rightarrow> string" where
  "oru_obx transcript loinc_code loinc_display =
     ''OBX|1|TX|'' @ loinc_code @ ''^'' @ loinc_display @ ''^LN||'' @ hl7_safe transcript @ ''||||||F''"

subsection \<open>The two messages\<close>

text \<open>
  The four optional routing arguments of both builders, with the defaults of the source.
\<close>

record routing =
  sending_app :: string
  sending_facility :: string
  receiving_app :: string
  receiving_facility :: string

definition default_routing :: routing where
  "default_routing =
     \<lparr>sending_app = ''DEEPGRAM'', sending_facility = ''EHR'',
      receiving_app = ''EHR_SYSTEM'', receiving_facility = ''FACILITY''\<rparr>"

definition t02_segments ::
  "datetime \<Rightarrow> string \<Rightarrow> string \<Rightarrow> string \<Rightarrow> string \<Rightarrow> string option \<Rightarrow> routing \<Rightarrow> string list" where
  "t02_segments now transcript patient_id visit_id provider_npi document_id rt =
     [mdm_msh (strftime_compact now) (hl7_msg_id now)
        (sending_app rt) (sending_facility rt) (receiving_app rt) (receiving_facility rt),
      mdm_evn (strftime_compact now),
      mdm_pid patient_id,
      mdm_pv1 visit_id provider_npi,
      mdm_txa (strftime_compact now) (mdm_doc_id now document_id) provider_npi,
      mdm_obx transcript]"

definition build_t02 ::
  "datetime \<Rightarrow> string \<Rightarrow> string \<Rightarrow> string \<Rightarrow> string \<Rightarrow> string option \<Rightarrow> routing \<Rightarrow> string" where
  "build_t02 now transcript patient_id visit_id provider_npi document_id rt =
     join [CR] (t02_segments now transcript patient_id visit_id provider_npi document_id rt)"

definition r01_segments ::
  "datetime \<Rightarrow> string \<Rightarrow> string \<Rightarrow> string \<Rightarrow> string \<Rightarrow> string \<Rightarrow> string \<Rightarrow> routing
     \<Rightarrow> string list" where
  "r01_segments now transcript patient_id order_id provider_npi loinc_code loinc_display rt =
     [oru_msh (strftime_compact now) (hl7_msg_id now)
        (sending_app rt) (sending_facility rt) (receiving_app rt) (receiving_facility rt),
      oru_pid patient_id,
      oru_obr order_id (strftime_compact now) provider_npi loinc_code loinc_display,
      oru_obx transcript loinc_code loinc_display]"

definition build_r01 ::
  "datetime \<Rightarrow> string \<Rightarrow> string \<Rightarrow> string \<Rightarrow> string \<Rightarrow> string \<Rightarrow> string \<Rightarrow> routing
     \<Rightarrow> string" where
  "build_r01 now transcript patient_id order_id provider_npi loinc_code loinc_display rt =
     join [CR] (r01_segments now transcript patient_id order_id provider_npi loinc_code loinc_display rt)"

text \<open>A sample clock value: 2024-03-05 14:07:09.000123 UTC.\<close>

definition sample_now :: datetime where
  "sample_now = \<lparr>year = 2024, month = 3, day = 5, hour = 14, minute = 7, second = 9, microsecond = 123\<rparr>"


section \<open>Transcripts (models.py, document-reference.py)\<close>

text \<open>
  A Python \<open>float\<close>: a finite value is \<open>(-1)^s * m * 2^e\<close> for a sign \<open>s\<close>, a mantissa \<open>m\<close>
  and an exponent \<open>e\<close> (every IEEE double has this form), or it is an infinity or a NaN.
\<close>

datatype pyfloat = Finite bool nat int | Infinite bool | NaN

text \<open>
  \<open>format(x, ".1f")\<close>: the exact value is rounded to the nearest tenth, ties to the even
  tenth; infinities and NaN are rendered by name.
\<close>

definition round_tenths :: "nat \<Rightarrow> int \<Rightarrow> nat" where
  "round_tenths m e =
     (if 0 \<le> e then 10 * m * 2 ^ nat e
      else (let d = 2 ^ nat (- e); q = (10 * m) div d; r = (10 * m) mod d
            in if d < 2 * r \<or> (2 * r = d \<and> odd q) then q + 1 else q))"

fun format_1f :: "pyfloat \<Rightarrow> string" where
  "format_1f NaN = ''nan''"
| "format_1f (Infinite s) = (if s then ''-inf'' else ''inf'')"
| "format_1f (Finite s m e) =
     (if s then ''-'' else []) @ str_nat (round_tenths m e div 10) @ ''.'' @ [digit_char (round_tenths m e mod 10)]"

record utterance =
  speaker :: int
  transcript :: string
  start :: pyfloat
  end_time :: pyfloat
  confidence :: pyfloat



section \<open>Python values and exceptions\<close>

datatype pyval =
    PNone
  | PBool bool
  | PInt int
  | PFloat pyfloat
  | PStr string
  | PList "pyval list"
  | PDict "(string \<times> pyval) list"

type_synonym pydict = "(string \<times> pyval) list"

text \<open>
  Exceptions carry \<open>str(exc)\<close> where the code reads it. \<open>FHIRValidationError\<close>,
  \<open>binascii.Error\<close> and \<open>UnicodeDecodeError\<close> are subclasses of \<open>ValueError\<close>.
\<close>

datatype exn =
    ValueError string
  | FHIRValidationError string
  | binascii_Error string
  | UnicodeDecodeError string
  | KeyError string
  | IndexError string
  | AttributeError
  | TypeError



text \<open>
  What the code takes from the Python runtime without fixing it: \<open>repr\<close> of a value (the
  \<open>!r\<close> conversions), the rendering of the two status sets (a set has no fixed iteration
  order), the message of a \<open>UnicodeDecodeError\<close> for given bytes, and which non-ASCII code
  points (given by their bytes) are decimal digits for \<open>\d\<close>.
\<close>

record pylib =
  repr :: "pyval \<Rightarrow> string"
  str_valid_statuses :: string
  str_valid_doc_statuses :: string
  unicode_decode_msg :: "string \<Rightarrow> string"
  is_Nd :: "string \<Rightarrow> bool"

abbreviation SQ :: char where "SQ \<equiv> CHR 0x27"

fun truthy :: "pyval \<Rightarrow> bool" where
  "truthy PNone = False"
| "truthy (PBool b) = b"
| "truthy (PInt i) = (i \<noteq> 0)"
| "truthy (PFloat (Finite s m e)) = (m \<noteq> 0)"
| "truthy (PFloat f) = True"
| "truthy (PStr s) = (s \<noteq> [])"
| "truthy (PList xs) = (xs \<noteq> [])"
| "truthy (PDict d) = (d \<noteq> [])"

text \<open>\<open>x.get(k, default)\<close>: only a dict has the method.\<close>

definition py_get :: "pyval \<Rightarrow> string \<Rightarrow> pyval \<Rightarrow> exn + pyval" where
  "py_get x k dflt =
     (case x of
        PDict d \<Rightarrow> Inr (case map_of d k of None \<Rightarrow> dflt | Some v \<Rightarrow> v)
      | _ \<Rightarrow> Inl AttributeError)"

text \<open>\<open>doc_ref.get(k, default)\<close> on the dict the function was given.\<close>

definition dict_get :: "pydict \<Rightarrow> string \<Rightarrow> pyval \<Rightarrow> pyval" where
  "dict_get d k dflt = (case map_of d k of None \<Rightarrow> dflt | Some v \<Rightarrow> v)"

text \<open>The bytes of the first code point of a string, by its lead byte, and the list of all.\<close>

definition utf8_len :: "char \<Rightarrow> nat" where
  "utf8_len c = (if of_char c < (0x80::nat) then 1 else if of_char c < (0xE0::nat) then 2
                 else if of_char c < (0xF0::nat) then 3 else 4)"

fun utf8_chars :: "string \<Rightarrow> string list" where
  "utf8_chars [] = []"
| "utf8_chars (c # cs) = (c # take (utf8_len c - 1) cs) # utf8_chars (drop (utf8_len c - 1) cs)"

text \<open>\<open>x[0]\<close>.\<close>

fun subscript0 :: "pyval \<Rightarrow> exn + pyval" where
  "subscript0 (PList []) = Inl (IndexError ''list index out of range'')"
| "subscript0 (PList (x # xs)) = Inr x"
| "subscript0 (PStr []) = Inl (IndexError ''string index out of range'')"
| "subscript0 (PStr (c # cs)) = Inr (PStr (c # take (utf8_len c - 1) cs))"
| "subscript0 (PDict d) = Inl (KeyError ''0'')"
| "subscript0 v = Inl TypeError"


text \<open>\<open>x not in S\<close> for a set \<open>S\<close> of strings hashes \<open>x\<close> first: lists and dicts raise.\<close>

fun hashable :: "pyval \<Rightarrow> bool" where
  "hashable (PList xs) = False"
| "hashable (PDict d) = False"
| "hashable v = True"

definition not_in_strs :: "pyval \<Rightarrow> string list \<Rightarrow> exn + bool" where
  "not_in_strs x S =
     (if \<not> hashable x then Inl TypeError
      else Inr (case x of PStr s \<Rightarrow> s \<notin> set S | _ \<Rightarrow> True))"

text \<open>Iteration (\<open>enumerate(x)\<close>): a list gives its items, a string its characters, a dict its keys.\<close>

fun py_iter :: "pyval \<Rightarrow> exn + pyval list" where
  "py_iter (PList xs) = Inr xs"
| "py_iter (PStr s) = Inr (map PStr (utf8_chars s))"
| "py_iter (PDict d) = Inr (map PStr (remdups (map fst d)))"
| "py_iter v = Inl TypeError"

section \<open>UTF-8, whitespace and base64 (the library functions the code calls)\<close>

definition byte :: "char \<Rightarrow> nat" where
  "byte c = of_char c"





text \<open>The base64 alphabet: the character of a 6-bit value and the value of a character.\<close>

definition b2a :: "nat \<Rightarrow> char" where
  "b2a i = (if i < 26 then char_of (65 + i) else if i < 52 then char_of (71 + i)
            else if i < 62 then char_of (i - 4) else if i = 62 then CHR ''+'' else CHR ''/'')"

definition a2b :: "char \<Rightarrow> nat option" where
  "a2b c = (if 65 \<le> byte c \<and> byte c \<le> 90 then Some (byte c - 65)
            else if 97 \<le> byte c \<and> byte c \<le> 122 then Some (byte c - 71)
            else if 48 \<le> byte c \<and> byte c \<le> 57 then Some (byte c + 4)
            else if c = CHR ''+'' then Some 62
            else if c = CHR ''/'' then Some 63
            else None)"

text \<open>\<open>base64.b64encode(bs)\<close>: three bytes give four characters, the last group is padded.\<close>

fun b64encode :: "string \<Rightarrow> string" where
  "b64encode [] = []"
| "b64encode [x] = [b2a (byte x div 4), b2a (byte x mod 4 * 16), CHR ''='', CHR ''='']"
| "b64encode [x, y] =
     [b2a (byte x div 4), b2a (byte x mod 4 * 16 + byte y div 16), b2a (byte y mod 16 * 4), CHR ''='']"
| "b64encode (x # y # z # rest) =
     [b2a (byte x div 4), b2a (byte x mod 4 * 16 + byte y div 16),
      b2a (byte y mod 16 * 4 + byte z div 64), b2a (byte z mod 64)] @ b64encode rest"

text \<open>
  \<open>binascii.a2b_base64(data, strict_mode)\<close> (CPython 3.11), the loop over the input with
  its state: the position in the current group of four, the bits left over, the padding
  characters counted, whether padding has started, and the bytes written.
\<close>

fun a2b_loop :: "bool \<Rightarrow> string \<Rightarrow> nat \<Rightarrow> nat \<Rightarrow> nat \<Rightarrow> bool \<Rightarrow> string \<Rightarrow> exn + string" where
  "a2b_loop strict [] quad_pos leftchar pads started out =
     (if quad_pos \<noteq> 0 then
        (if quad_pos = 1 then
           Inl (binascii_Error (''Invalid base64-encoded string: number of data characters (''
                  @ str_nat (length out div 3 * 4 + 1) @ '') cannot be 1 more than a multiple of 4''))
         else Inl (binascii_Error ''Incorrect padding''))
      else Inr out)"
| "a2b_loop strict (c # cs) quad_pos leftchar pads started out =
     (if c = CHR ''='' then
        (if 2 \<le> quad_pos \<and> 4 \<le> quad_pos + (pads + 1) then
           (if strict \<and> cs \<noteq> [] then Inl (binascii_Error ''Excess data after padding'') else Inr out)
         else a2b_loop strict cs quad_pos leftchar (if 2 \<le> quad_pos then pads + 1 else pads) True out)
      else
        (case a2b c of
           None \<Rightarrow>
             (if strict then Inl (binascii_Error ''Only base64 data is allowed'')
              else a2b_loop strict cs quad_pos leftchar pads started out)
         | Some v \<Rightarrow>
             (if strict \<and> started then Inl (binascii_Error ''Discontinuous padding not allowed'')
              else if quad_pos = 0 then a2b_loop strict cs 1 v 0 started out
              else if quad_pos = 1 then
                a2b_loop strict cs 2 (v mod 16) 0 started (out @ [char_of (leftchar * 4 + v div 16)])
              else if quad_pos = 2 then
                a2b_loop strict cs 3 (v mod 4) 0 started (out @ [char_of (leftchar * 16 + v div 4)])
              else a2b_loop strict cs 0 0 0 started (out @ [char_of (leftchar * 64 + v)]))))"

definition a2b_base64 :: "string \<Rightarrow> bool \<Rightarrow> exn + string" where
  "a2b_base64 s strict =
     (if strict \<and> s \<noteq> [] \<and> hd s = CHR ''='' then Inl (binascii_Error ''Leading padding not allowed'')
      else a2b_loop strict s 0 0 0 False [])"

definition is_ascii :: "string \<Rightarrow> bool" where
  "is_ascii s = list_all (\<lambda>c. byte c < 0x80) s"

text \<open>\<open>base64.b64decode(x, validate=strict)\<close> for a value \<open>x\<close> of the resource.\<close>

definition b64decode :: "pyval \<Rightarrow> bool \<Rightarrow> exn + string" where
  "b64decode x strict =
     (case x of
        PStr s \<Rightarrow>
          (if is_ascii s then a2b_base64 s strict
           else Inl (ValueError ''string argument should contain only ASCII characters''))
      | _ \<Rightarrow> Inl TypeError)"


section \<open>FHIR DocumentReference (document-reference.py)\<close>

definition LOINC_PROGRESS_NOTE :: string where "LOINC_PROGRESS_NOTE = ''11506-3''"
definition LOINC_CONSULT_NOTE :: string where "LOINC_CONSULT_NOTE = ''11488-4''"
definition LOINC_DISCHARGE_SUMMARY :: string where "LOINC_DISCHARGE_SUMMARY = ''18842-5''"
definition LOINC_AMBIENT_CLINICAL :: string where "LOINC_AMBIENT_CLINICAL = ''34109-9''"


definition VALID_STATUSES :: "string list" where
  "VALID_STATUSES = [''current'', ''superseded'', ''entered-in-error'']"

definition VALID_DOC_STATUSES :: "string list" where
  "VALID_DOC_STATUSES = [''preliminary'', ''final'', ''amended'', ''entered-in-error'']"

definition LOINC_SYSTEM :: string where "LOINC_SYSTEM = ''http://loinc.org''"

subsection \<open>The two regular expressions\<close>

text \<open>
  Both patterns are anchored and matched with \<open>re.match\<close>. \<open>$\<close> (without \<open>re.MULTILINE\<close>)
  holds at the end of the string and just before a newline that ends the string.
\<close>

definition dollar :: "string \<Rightarrow> bool" where
  "dollar r = (r = [] \<or> r = [LF])"

definition is_upper :: "char \<Rightarrow> bool" where
  "is_upper c = (65 \<le> byte c \<and> byte c \<le> 90)"

definition is_alpha :: "char \<Rightarrow> bool" where
  "is_alpha c = ((65 \<le> byte c \<and> byte c \<le> 90) \<or> (97 \<le> byte c \<and> byte c \<le> 122))"

text \<open>\<open>.+$\<close>: \<open>.\<close> is any character but the newline; after each one, \<open>$\<close> may hold or \<open>.+\<close> goes on.\<close>

fun dot_plus_dollar :: "string \<Rightarrow> bool" where
  "dot_plus_dollar [] = False"
| "dot_plus_dollar (c # cs) = (c \<noteq> LF \<and> (dollar cs \<or> dot_plus_dollar cs))"

text \<open>\<open>/.+$\<close> and \<open>[A-Za-z]+/.+$\<close>.\<close>

fun slash_rest :: "string \<Rightarrow> bool" where
  "slash_rest [] = False"
| "slash_rest (c # cs) = (c = CHR ''/'' \<and> dot_plus_dollar cs)"

fun alpha_plus_rest :: "string \<Rightarrow> bool" where
  "alpha_plus_rest [] = False"
| "alpha_plus_rest (c # cs) = (is_alpha c \<and> (slash_rest cs \<or> alpha_plus_rest cs))"

text \<open>\<open>_FHIR_REFERENCE_RE = ^[A-Z][A-Za-z]+/.+$\<close>.\<close>

fun FHIR_REFERENCE_RE :: "string \<Rightarrow> bool" where
  "FHIR_REFERENCE_RE [] = False"
| "FHIR_REFERENCE_RE (c # cs) = (is_upper c \<and> alpha_plus_rest cs)"

text \<open>
  \<open>\d\<close> matches one decimal digit: an ASCII digit or a non-ASCII code point of category Nd.
  A matcher returns the rest of the input after what it matched.
\<close>

fun re_digit :: "pylib \<Rightarrow> string \<Rightarrow> string option" where
  "re_digit L [] = None"
| "re_digit L (c # cs) =
     (if 48 \<le> byte c \<and> byte c \<le> 57 then Some cs
      else if byte c < 0x80 then None
      else if utf8_len c - 1 \<le> length cs \<and> is_Nd L (c # take (utf8_len c - 1) cs)
        then Some (drop (utf8_len c - 1) cs)
      else None)"

fun re_char :: "char \<Rightarrow> string \<Rightarrow> string option" where
  "re_char x [] = None"
| "re_char x (c # cs) = (if c = x then Some cs else None)"

fun re_sign :: "string \<Rightarrow> string option" where
  "re_sign [] = None"
| "re_sign (c # cs) = (if c = CHR ''+'' \<or> c = CHR ''-'' then Some cs else None)"

fun re_seq :: "(string \<Rightarrow> string option) list \<Rightarrow> string \<Rightarrow> string option" where
  "re_seq [] s = Some s"
| "re_seq (m # ms) s = (case m s of None \<Rightarrow> None | Some r \<Rightarrow> re_seq ms r)"

definition re_digits2 :: "pylib \<Rightarrow> string \<Rightarrow> string option" where
  "re_digits2 L = re_seq [re_digit L, re_digit L]"

definition re_digits4 :: "pylib \<Rightarrow> string \<Rightarrow> string option" where
  "re_digits4 L = re_seq [re_digit L, re_digit L, re_digit L, re_digit L]"

text \<open>\<open>_FHIR_DATETIME_RE = ^\d{4}-\d{2}-\d{2}T\d{2}:\d{2}:\d{2}(Z|[+-]\d{2}:\d{2})$\<close>.\<close>

definition FHIR_DATETIME_RE :: "pylib \<Rightarrow> string \<Rightarrow> bool" where
  "FHIR_DATETIME_RE L s =
     (case re_seq [re_digits4 L, re_char (CHR ''-''), re_digits2 L, re_char (CHR ''-''), re_digits2 L,
                   re_char (CHR ''T''), re_digits2 L, re_char (CHR '':''), re_digits2 L,
                   re_char (CHR '':''), re_digits2 L] s of
        None \<Rightarrow> False
      | Some r \<Rightarrow>
          (case re_char (CHR ''Z'') r of
             Some r' \<Rightarrow> dollar r'
           | None \<Rightarrow>
               (case re_seq [re_sign, re_digits2 L, re_char (CHR '':''), re_digits2 L] r of
                  None \<Rightarrow> False
                | Some r' \<Rightarrow> dollar r')))"

text \<open>\<open>pattern.match(x)\<close> raises a \<open>TypeError\<close> when \<open>x\<close> is not a string.\<close>

definition match_reference :: "pyval \<Rightarrow> exn + bool" where
  "match_reference x = (case x of PStr s \<Rightarrow> Inr (FHIR_REFERENCE_RE s) | _ \<Rightarrow> Inl TypeError)"

definition match_datetime :: "pylib \<Rightarrow> pyval \<Rightarrow> exn + bool" where
  "match_datetime L x = (case x of PStr s \<Rightarrow> Inr (FHIR_DATETIME_RE L s) | _ \<Rightarrow> Inl TypeError)"

subsection \<open>validate-r4-schema\<close>

text \<open>
  The function runs its checks in order, appending to \<open>errors\<close>. Each check is modelled by
  the list of messages it appends, or by the exception that leaves the function there.
\<close>

definition check_resource_type :: "pylib \<Rightarrow> pydict \<Rightarrow> exn + string list" where
  "check_resource_type L doc_ref =
     Inr (if dict_get doc_ref ''resourceType'' PNone \<noteq> PStr ''DocumentReference''
          then [''resourceType must be '' @ [SQ] @ ''DocumentReference'' @ [SQ] @ '', got ''
                 @ repr L (dict_get doc_ref ''resourceType'' PNone)]
          else [])"

definition check_status :: "pylib \<Rightarrow> pydict \<Rightarrow> exn + string list" where
  "check_status L doc_ref =
     (let status = dict_get doc_ref ''status'' PNone
      in if \<not> truthy status then Inr [''status is required'']
         else (case not_in_strs status VALID_STATUSES of
                 Inl e \<Rightarrow> Inl e
               | Inr bad \<Rightarrow>
                   Inr (if bad then [''status '' @ repr L status @ '' is not a valid R4 code: ''
                                      @ str_valid_statuses L]
                        else [])))"

definition check_doc_status :: "pylib \<Rightarrow> pydict \<Rightarrow> exn + string list" where
  "check_doc_status L doc_ref =
     (let doc_status = dict_get doc_ref ''docStatus'' PNone
      in if \<not> truthy doc_status then Inr []
         else (case not_in_strs doc_status VALID_DOC_STATUSES of
                 Inl e \<Rightarrow> Inl e
               | Inr bad \<Rightarrow>
                   Inr (if bad then [''docStatus '' @ repr L doc_status @ '' is not a valid R4 code: ''
                                      @ str_valid_doc_statuses L]
                        else [])))"

text \<open>
  \<open>coding = (doc_ref.get("type", {}).get("coding", [{}])[0]
             if doc_ref.get("type", {}).get("coding") else {})\<close>
\<close>

definition first_coding :: "pydict \<Rightarrow> exn + pyval" where
  "first_coding doc_ref =
     (case py_get (dict_get doc_ref ''type'' (PDict [])) ''coding'' PNone of
        Inl e \<Rightarrow> Inl e
      | Inr c \<Rightarrow>
          if truthy c then
            (case py_get (dict_get doc_ref ''type'' (PDict [])) ''coding'' (PList [PDict []]) of
               Inl e \<Rightarrow> Inl e
             | Inr c' \<Rightarrow> subscript0 c')
          else Inr (PDict []))"

definition check_coding :: "pylib \<Rightarrow> pydict \<Rightarrow> exn + string list" where
  "check_coding L doc_ref =
     (case first_coding doc_ref of
        Inl e \<Rightarrow> Inl e
      | Inr coding \<Rightarrow>
          if \<not> truthy coding then Inr [''type.coding must have at least one entry'']
          else
            (case py_get coding ''system'' PNone of
               Inl e \<Rightarrow> Inl e
             | Inr sys \<Rightarrow>
                 (case py_get coding ''code'' PNone of
                    Inl e \<Rightarrow> Inl e
                  | Inr code \<Rightarrow>
                      Inr ((if sys \<noteq> PStr LOINC_SYSTEM
                            then [''type.coding[0].system must be '' @ repr L (PStr LOINC_SYSTEM)
                                   @ '', got '' @ repr L sys]
                            else [])
                           @ (if \<not> truthy code then [''type.coding[0].code is required''] else [])))))"

definition check_subject :: "pylib \<Rightarrow> pydict \<Rightarrow> exn + string list" where
  "check_subject L doc_ref =
     (case py_get (dict_get doc_ref ''subject'' (PDict [])) ''reference'' (PStr []) of
        Inl e \<Rightarrow> Inl e
      | Inr subject_ref \<Rightarrow>
          if \<not> truthy subject_ref then Inr [''subject.reference is required'']
          else
            (case match_reference subject_ref of
               Inl e \<Rightarrow> Inl e
             | Inr ok \<Rightarrow>
                 Inr (if \<not> ok then [''subject.reference '' @ repr L subject_ref @ '' must match ''
                                       @ [SQ] @ ''ResourceType/id'' @ [SQ]]
                      else [])))"

definition check_date :: "pylib \<Rightarrow> pydict \<Rightarrow> exn + string list" where
  "check_date L doc_ref =
     (let date_val = dict_get doc_ref ''date'' (PStr [])
      in if \<not> truthy date_val then Inr []
         else (case match_datetime L date_val of
                 Inl e \<Rightarrow> Inl e
               | Inr ok \<Rightarrow>
                   Inr (if \<not> ok then [''date '' @ repr L date_val
                                         @ '' must be a FHIR instant (YYYY-MM-DDTHH:MM:SSZ)'']
                        else [])))"

text \<open>The \<open>try\<close> around \<open>b64decode\<close> catches \<open>binascii.Error\<close> only.\<close>

definition check_content :: "pylib \<Rightarrow> pydict \<Rightarrow> exn + string list" where
  "check_content L doc_ref =
     (let content = dict_get doc_ref ''content'' (PList [])
      in if \<not> truthy content then Inr [''content must have at least one entry'']
         else
           (case subscript0 content of
              Inl e \<Rightarrow> Inl e
            | Inr c0 \<Rightarrow>
                (case py_get c0 ''attachment'' (PDict []) of
                   Inl e \<Rightarrow> Inl e
                 | Inr att \<Rightarrow>
                     (case py_get att ''data'' (PStr []) of
                        Inl e \<Rightarrow> Inl e
                      | Inr b64_data \<Rightarrow>
                          if truthy b64_data then
                            (case b64decode b64_data True of
                               Inl (binascii_Error m) \<Rightarrow> Inr [''content[0].attachment.data is not valid base64'']
                             | Inl e \<Rightarrow> Inl e
                             | Inr bs \<Rightarrow> Inr [])
                          else Inr []))))"

text \<open>
  The two loops \<open>for i, x in enumerate(xs): ref = x.get("reference", ""); ...\<close> differ in the
  name they print only.
\<close>

fun check_refs :: "pylib \<Rightarrow> string \<Rightarrow> nat \<Rightarrow> pyval list \<Rightarrow> exn + string list" where
  "check_refs L name i [] = Inr []"
| "check_refs L name i (x # xs) =
     (case py_get x ''reference'' (PStr []) of
        Inl e \<Rightarrow> Inl e
      | Inr ref \<Rightarrow>
          (case match_reference ref of
             Inl e \<Rightarrow> Inl e
           | Inr ok \<Rightarrow>
               (case check_refs L name (Suc i) xs of
                  Inl e \<Rightarrow> Inl e
                | Inr es \<Rightarrow>
                    Inr ((if \<not> ok then [name @ ''['' @ str_nat i @ ''].reference '' @ repr L ref
                                          @ '' must match '' @ [SQ] @ ''ResourceType/id'' @ [SQ]]
                          else []) @ es))))"

text \<open>
  \<open>enc_refs = (doc_ref.get("context", {}).get("encounter", [])
               if isinstance(doc_ref.get("context"), dict) else [])\<close>
\<close>

definition enc_refs :: "pydict \<Rightarrow> pyval" where
  "enc_refs doc_ref =
     (case dict_get doc_ref ''context'' PNone of
        PDict c \<Rightarrow> dict_get c ''encounter'' (PList [])
      | _ \<Rightarrow> PList [])"

definition check_encounters :: "pylib \<Rightarrow> pydict \<Rightarrow> exn + string list" where
  "check_encounters L doc_ref =
     (case py_iter (enc_refs doc_ref) of
        Inl e \<Rightarrow> Inl e
      | Inr xs \<Rightarrow> check_refs L ''context.encounter'' 0 xs)"

definition check_authors :: "pylib \<Rightarrow> pydict \<Rightarrow> exn + string list" where
  "check_authors L doc_ref =
     (case py_iter (dict_get doc_ref ''author'' (PList [])) of
        Inl e \<Rightarrow> Inl e
      | Inr xs \<Rightarrow> check_refs L ''author'' 0 xs)"

text \<open>The checks in sequence: the first exception ends the run, otherwise the messages add up.\<close>

fun collect :: "(exn + string list) list \<Rightarrow> exn + string list" where
  "collect [] = Inr []"
| "collect (Inl e # rest) = Inl e"
| "collect (Inr es # rest) = (case collect rest of Inl e \<Rightarrow> Inl e | Inr es' \<Rightarrow> Inr (es @ es'))"

definition r4_errors :: "pylib \<Rightarrow> pydict \<Rightarrow> exn + string list" where
  "r4_errors L doc_ref =
     collect [check_resource_type L doc_ref, check_status L doc_ref, check_doc_status L doc_ref,
              check_coding L doc_ref, check_subject L doc_ref, check_date L doc_ref,
              check_content L doc_ref, check_encounters L doc_ref, check_authors L doc_ref]"

definition failure_message :: "string list \<Rightarrow> string" where
  "failure_message errors =
     ''FHIR R4 DocumentReference validation failed ('' @ str_nat (length errors) @ '' error(s)):''
     @ [LF] @ ''  - '' @ join ([LF] @ ''  - '') errors"

definition validate_r4_schema :: "pylib \<Rightarrow> pydict \<Rightarrow> exn + unit" where
  "validate_r4_schema L doc_ref =
     (case r4_errors L doc_ref of
        Inl e \<Rightarrow> Inl e
      | Inr errors \<Rightarrow> if errors \<noteq> [] then Inl (FHIRValidationError (failure_message errors)) else Inr ())"

subsection \<open>from-transcript and decode-content\<close>

definition loinc_display :: "string \<Rightarrow> string" where
  "loinc_display code =
     (case map_of [(LOINC_PROGRESS_NOTE, ''Progress note''),
                   (LOINC_CONSULT_NOTE, ''Consult note''),
                   (LOINC_DISCHARGE_SUMMARY, ''Discharge summary''),
                   (LOINC_AMBIENT_CLINICAL, ''Note'')] code of
        None \<Rightarrow> ''Clinical note''
      | Some d \<Rightarrow> d)"







text \<open>
  A sample runtime for evaluating examples: \<open>repr\<close> of a string without quotes or escapes
  is the string in single quotes, there are no non-ASCII digits, and the decoding message is
  the one Python gives for the single byte \<open>0xff\<close>.
\<close>

definition sample_repr :: "pyval \<Rightarrow> string" where
  "sample_repr v = (case v of PStr s \<Rightarrow> [SQ] @ s @ [SQ] | PNone \<Rightarrow> ''None'' | _ \<Rightarrow> ''<value>'')"

definition sample_lib :: pylib where
  "sample_lib =
     \<lparr>repr = sample_repr,
      str_valid_statuses = ''{'' @ [SQ] @ ''current'' @ [SQ] @ '', '' @ [SQ] @ ''superseded'' @ [SQ] @ '', ''
                           @ [SQ] @ ''entered-in-error'' @ [SQ] @ ''}'',
      str_valid_doc_statuses = ''{'' @ [SQ] @ ''preliminary'' @ [SQ] @ '', '' @ [SQ] @ ''final'' @ [SQ] @ '', ''
                           @ [SQ] @ ''amended'' @ [SQ] @ '', '' @ [SQ] @ ''entered-in-error'' @ [SQ] @ ''}'',
      unicode_decode_msg = (\<lambda>bs. [SQ] @ ''utf-8'' @ [SQ] @ '' codec can'' @ [SQ]
                                 @ ''t decode byte 0xff in position 0: invalid start byte''),
      is_Nd = (\<lambda>cp. False)\<rparr>"


section \<open>Notions used to state the properties\<close>

text \<open>
  The escaping as the specification words it: a pipe becomes \<open>\F\\<close>, a carriage return or
  a newline becomes one space, any other character stays.
\<close>

definition hl7_escape_char :: "char \<Rightarrow> string" where
  "hl7_escape_char c =
     (if c = CHR ''|'' then [BSL, CHR ''F'', BSL] else if c = CR \<or> c = LF then '' '' else [c])"


text \<open>The characters of the routing arguments, and how often one occurs in them.\<close>

definition routing_chars :: "routing \<Rightarrow> char set" where
  "routing_chars rt =
     set (sending_app rt) \<union> set (sending_facility rt) \<union> set (receiving_app rt) \<union> set (receiving_facility rt)"

definition routing_count :: "routing \<Rightarrow> char \<Rightarrow> nat" where
  "routing_count rt c =
     count_list (sending_app rt) c + count_list (sending_facility rt) c
     + count_list (receiving_app rt) c + count_list (receiving_facility rt) c"


text \<open>\<open>doc[k] = v\<close>, and reading a nested value by keys and first-element steps.\<close>

fun dict_set :: "pydict \<Rightarrow> string \<Rightarrow> pyval \<Rightarrow> pydict" where
  "dict_set [] k v = [(k, v)]"
| "dict_set ((k', v') # d) k v = (if k' = k then (k, v) # d else (k', v') # dict_set d k v)"



text \<open>A resource that passes every check, and the utterance of the specification's scenario
  (\<open>0.5\<close> is \<open>1 * 2^-1\<close>, the double nearest to \<open>3.2\<close> is \<open>3602879701896397 * 2^-50\<close>).\<close>

definition sample_doc :: pydict where
  "sample_doc =
     [(''resourceType'', PStr ''DocumentReference''),
      (''status'', PStr ''current''),
      (''docStatus'', PStr ''final''),
      (''type'', PDict [(''coding'', PList [PDict
          [(''system'', PStr ''http://loinc.org''), (''code'', PStr ''11506-3''),
           (''display'', PStr ''Progress note'')]])]),
      (''subject'', PDict [(''reference'', PStr ''Patient/p-001'')]),
      (''date'', PStr ''2024-03-05T14:07:09Z''),
      (''content'', PList [PDict [(''attachment'', PDict
          [(''contentType'', PStr ''text/plain''), (''data'', PStr ''aGk=''),
           (''title'', PStr ''Clinical Transcription'')])]]),
      (''context'', PDict [(''encounter'', PList [PDict [(''reference'', PStr ''Encounter/e-001'')]])])]"


text \<open>A number with one decimal place: an optional minus sign, digits, a point, one digit.\<close>

definition is_digit :: "char \<Rightarrow> bool" where
  "is_digit c = (48 \<le> byte c \<and> byte c \<le> 57)"


text \<open>
  The form of a reference as the specification words it: a resource type that begins with
  an uppercase letter and goes on with word characters, a slash, at least one character.
\<close>

definition is_word :: "char \<Rightarrow> bool" where
  "is_word c = (is_alpha c \<or> is_digit c \<or> c = CHR ''_'')"

fun word_rest :: "string \<Rightarrow> bool" where
  "word_rest [] = False"
| "word_rest (c # cs) = ((c = CHR ''/'' \<and> cs \<noteq> []) \<or> (is_word c \<and> word_rest cs))"

fun spec_reference_form :: "string \<Rightarrow> bool" where
  "spec_reference_form [] = False"
| "spec_reference_form (c # cs) = (is_upper c \<and> word_rest cs)"

text \<open>The message of the per-index reference check for entry \<open>j\<close> of the list \<open>name\<close>.\<close>

definition ref_error :: "pylib \<Rightarrow> string \<Rightarrow> nat \<Rightarrow> pyval \<Rightarrow> string" where
  "ref_error L name j v =
     name @ ''['' @ str_nat j @ ''].reference '' @ repr L v @ '' must match '' @ [SQ] @ ''ResourceType/id'' @ [SQ]"

text \<open>A list entry \<open>{"reference": s}\<close>.\<close>

definition ref_entry :: "string \<Rightarrow> pyval" where
  "ref_entry s = PDict [(''reference'', PStr s)]"











section \<open>Properties of the HL7v2 builders\<close>

lemma replace_char_append: "replace_char c r (xs @ ys) = replace_char c r xs @ replace_char c r ys"
  by (induction xs) auto

lemma hl7_safe_concat: "hl7_safe t = concat (map hl7_escape_char t)"
  by (induction t) (auto simp: hl7_safe_def hl7_escape_char_def replace_char_append)

lemma hl7_safe_chars: "c \<in> set (hl7_safe t) \<Longrightarrow> c \<noteq> CHR ''|'' \<and> c \<noteq> CR \<and> c \<noteq> LF"
  by (induction t) (auto simp: hl7_safe_concat hl7_escape_char_def split: if_splits)

lemma digit_char_digit: "d < 10 \<Longrightarrow> digit_char d \<in> set ''0123456789''"
  unfolding digit_char_def by (rule nth_mem) simp

lemma str_nat_digits: "set (str_nat n) \<subseteq> set ''0123456789''"
proof (induction n rule: str_nat.induct)
  case (1 n)
  show ?case
  proof (cases "n < 10")
    case True
    then show ?thesis using digit_char_digit[of n] by (subst str_nat.simps) simp
  next
    case False
    have "n mod 10 < 10" by simp
    then have "digit_char (n mod 10) \<in> set ''0123456789''" by (rule digit_char_digit)
    with False 1 show ?thesis by (subst str_nat.simps) simp
  qed
qed

lemma zpad_digits: "set s \<subseteq> set ''0123456789'' \<Longrightarrow> set (zpad w s) \<subseteq> set ''0123456789''"
  by (auto simp: zpad_def)



lemma length_split_on: "length (split_on sep s) = Suc (count_list s sep)"
  by (induction s) (auto split: list.splits)



lemma strftime_compact_digits: "set (strftime_compact now) \<subseteq> set ''0123456789''"
  unfolding strftime_compact_def fmt_Y_def fmt_m_def fmt_d_def fmt_H_def fmt_M_def fmt_S_def set_append
  by (intro Un_least zpad_digits str_nat_digits)

lemma strftime_compact_f_digits: "set (strftime_compact_f now) \<subseteq> set ''0123456789''"
  unfolding strftime_compact_f_def fmt_f_def set_append
  by (intro Un_least zpad_digits str_nat_digits strftime_compact_digits)

lemma not_digit_ts: "c \<notin> set ''0123456789'' \<Longrightarrow> c \<notin> set (strftime_compact now)"
  using strftime_compact_digits by blast

lemma not_digit_ts_f: "c \<notin> set ''0123456789'' \<Longrightarrow> c \<notin> set (take n (strftime_compact_f now))"
  using strftime_compact_f_digits by (meson in_set_takeD subsetD)

lemma CR_ts [simp]: "CR \<notin> set (strftime_compact now)" "CHR ''|'' \<notin> set (strftime_compact now)"
  by (rule not_digit_ts, simp)+

lemma CR_ts_f [simp]: "CR \<notin> set (take n (strftime_compact_f now))" "CHR ''|'' \<notin> set (take n (strftime_compact_f now))"
  by (rule not_digit_ts_f, simp)+

lemma hl7_safe_notin [simp]:
  "CHR ''|'' \<notin> set (hl7_safe t)" "CR \<notin> set (hl7_safe t)" "LF \<notin> set (hl7_safe t)"
  using hl7_safe_chars by blast+













lemma count_hl7_safe [simp]: "count_list (hl7_safe t) CR = 0" "count_list (hl7_safe t) (CHR ''|'') = 0"
  by (simp_all add: count_list_0_iff)





lemma count_ts [simp]:
  "count_list (strftime_compact now) CR = 0" "count_list (take n (strftime_compact_f now)) CR = 0"
  by (simp_all add: count_list_0_iff)

lemma t02_count_CR:
  "count_list (build_t02 now t pid vid npi did rt) CR
     = 5 + count_list pid CR + count_list vid CR + 2 * count_list npi CR
       + 2 * count_list (mdm_doc_id now did) CR
       + routing_count rt CR"
  by (simp add: build_t02_def t02_segments_def mdm_msh_def mdm_evn_def mdm_pid_def mdm_pv1_def mdm_txa_def
      mdm_obx_def FIELD_SEP_def ENCODING_CHARS_def hl7_msg_id_def routing_chars_def routing_count_def)

lemma r01_count_CR:
  "count_list (build_r01 now t pid oid npi code disp rt) CR
     = 3 + count_list pid CR + count_list oid CR + count_list npi CR
       + 2 * count_list code CR + 2 * count_list disp CR
       + routing_count rt CR"
  by (simp add: build_r01_def r01_segments_def oru_msh_def oru_pid_def oru_obr_def
      oru_obx_def FIELD_SEP_def ENCODING_CHARS_def hl7_msg_id_def routing_chars_def routing_count_def)

lemma pid_count_pipe:
  "count_list (mdm_pid pid) (CHR ''|'') = 8 + count_list pid (CHR ''|'')"
  "count_list (oru_pid pid) (CHR ''|'') = 8 + count_list pid (CHR ''|'')"
  by (simp_all add: mdm_pid_def oru_pid_def)

text \<open>
  C10. The identifiers go into the message as they are. Every carriage return in
  \<open>patient_id\<close>, \<open>visit_id\<close>, \<open>order_id\<close>, \<open>provider_npi\<close> or the document id adds a segment to
  what splitting the message at carriage returns gives, and every pipe in \<open>patient_id\<close>
  adds a field to the PID segment. So with the patient id \<open>12\r34\<close> the result of
  \<open>build_t02\<close> has seven segments and that of \<open>build_r01\<close> five, and with \<open>12|34\<close> the PID
  segment has ten fields, the identifier type \<open>MRN\<close> moving from the fourth to the fifth.
\<close>

theorem hl7_identifiers_verbatim:
  "length (split_on CR (build_t02 now t pid vid npi did rt))
     = 6 + count_list pid CR + count_list vid CR + 2 * count_list npi CR
       + 2 * count_list (mdm_doc_id now did) CR
       + routing_count rt CR
   \<and> length (split_on CR (build_r01 now t pid oid npi code disp rt))
     = 4 + count_list pid CR + count_list oid CR + count_list npi CR
       + 2 * count_list code CR + 2 * count_list disp CR
       + routing_count rt CR
   \<and> mdm_doc_id now (Some (x # xs)) = x # xs
   \<and> length (split_on (CHR ''|'') (mdm_pid pid)) = 9 + count_list pid (CHR ''|'')
   \<and> length (split_on (CHR ''|'') (oru_pid pid)) = 9 + count_list pid (CHR ''|'')
   \<and> length (split_on CR (build_t02 now t (''12'' @ [CR] @ ''34'') ''V-1'' ''1234567890'' None
                  default_routing)) = 7
   \<and> length (split_on CR (build_r01 now t (''12'' @ [CR] @ ''34'') ''ORD-1'' ''1234567890''
                  ''11506-3'' ''Progress note'' default_routing)) = 5
   \<and> split_on (CHR ''|'') (mdm_pid ''1234'')
        = [''PID'', ''1'', [], ''1234^^^MRN'', [], ''LastName^FirstName'', [], [], ''U'']
   \<and> split_on (CHR ''|'') (mdm_pid ''12|34'')
        = [''PID'', ''1'', [], ''12'', ''34^^^MRN'', [], ''LastName^FirstName'', [], [], ''U'']
   \<and> split_on (CHR ''|'') (oru_pid ''12|34'')
        = [''PID'', ''1'', [], ''12'', ''34^^^MRN'', [], ''LastName^FirstName'', [], [], ''U'']"
proof -
  have d: "count_list (mdm_doc_id now None) CR = 0"
    by (simp add: mdm_doc_id_def)
  have n7: "length (split_on CR (build_t02 now t (''12'' @ [CR] @ ''34'') ''V-1'' ''1234567890'' None
                  default_routing)) = 7"
    unfolding length_split_on t02_count_CR d by (simp add: routing_count_def default_routing_def)
  have n5: "length (split_on CR (build_r01 now t (''12'' @ [CR] @ ''34'') ''ORD-1'' ''1234567890''
                  ''11506-3'' ''Progress note'' default_routing)) = 5"
    unfolding length_split_on r01_count_CR by (simp add: routing_count_def default_routing_def)
  have f: "split_on (CHR ''|'') (mdm_pid ''1234'')
        = [''PID'', ''1'', [], ''1234^^^MRN'', [], ''LastName^FirstName'', [], [], ''U'']"
    "split_on (CHR ''|'') (mdm_pid ''12|34'')
        = [''PID'', ''1'', [], ''12'', ''34^^^MRN'', [], ''LastName^FirstName'', [], [], ''U'']"
    "split_on (CHR ''|'') (oru_pid ''12|34'')
        = [''PID'', ''1'', [], ''12'', ''34^^^MRN'', [], ''LastName^FirstName'', [], [], ''U'']"
    by (simp_all add: mdm_pid_def oru_pid_def)
  have g: "mdm_doc_id now (Some (x # xs)) = x # xs"
    by (simp add: mdm_doc_id_def)
  show ?thesis
    unfolding n7 n5 f g
    by (simp add: length_split_on t02_count_CR r01_count_CR pid_count_pipe)
qed

theorem hl7_identifiers_verbatim_witness:
  "length (split_on CR (build_t02 sample_now ''note'' (''12'' @ [CR] @ ''34'') ''V-1'' ''1234567890'' None
                  default_routing)) = 7
   \<and> length (split_on CR (build_r01 sample_now ''note'' (''12'' @ [CR] @ ''34'') ''ORD-1'' ''1234567890''
                  ''11506-3'' ''Progress note'' default_routing)) = 5
   \<and> length (split_on (CHR ''|'') (mdm_pid ''12|34'')) = 10"
  using hl7_identifiers_verbatim[where now = sample_now and t = "''note''" and pid = "''12|34''"]
  by simp

section \<open>Properties of the library functions\<close>

subsection \<open>Base64\<close>

lemma byte_less [simp]: "byte c < 256"
  by (simp add: byte_def)





lemma sx4: "(z::nat) mod 64 < 64" by simp













lemma b64encode_eq_Nil: "b64encode bs = [] \<longleftrightarrow> bs = []"
  by (cases bs rule: b64encode.cases) simp_all



subsection \<open>The reference pattern\<close>

lemma dot_plus_dollar_iff:
  "dot_plus_dollar r \<longleftrightarrow>
     (\<exists>body nl. r = body @ nl \<and> body \<noteq> [] \<and> LF \<notin> set body \<and> (nl = [] \<or> nl = [LF]))"
proof (induction r)
  case Nil
  then show ?case by simp
next
  case (Cons c cs)
  show ?case
  proof
    assume a: "dot_plus_dollar (c # cs)"
    then have c: "c \<noteq> LF" by simp
    from a have "dollar cs \<or> dot_plus_dollar cs" by simp
    then show "\<exists>body nl. c # cs = body @ nl \<and> body \<noteq> [] \<and> LF \<notin> set body \<and> (nl = [] \<or> nl = [LF])"
    proof
      assume "dollar cs"
      then have "c # cs = [c] @ cs \<and> [c] \<noteq> [] \<and> LF \<notin> set [c] \<and> (cs = [] \<or> cs = [LF])"
        using c by (simp add: dollar_def)
      then show ?thesis by blast
    next
      assume "dot_plus_dollar cs"
      then obtain body nl where b: "cs = body @ nl" "body \<noteq> []" "LF \<notin> set body" "nl = [] \<or> nl = [LF]"
        using Cons.IH by blast
      then have "c # cs = (c # body) @ nl \<and> c # body \<noteq> [] \<and> LF \<notin> set (c # body) \<and> (nl = [] \<or> nl = [LF])"
        using c by simp
      then show ?thesis by blast
    qed
  next
    assume "\<exists>body nl. c # cs = body @ nl \<and> body \<noteq> [] \<and> LF \<notin> set body \<and> (nl = [] \<or> nl = [LF])"
    then obtain body nl where b: "c # cs = body @ nl" "body \<noteq> []" "LF \<notin> set body" "nl = [] \<or> nl = [LF]"
      by blast
    then obtain body' where b': "body = c # body'" "cs = body' @ nl"
      by (cases body) auto
    show "dot_plus_dollar (c # cs)"
    proof (cases "body' = []")
      case True
      then show ?thesis using b b' by (auto simp: dollar_def)
    next
      case False
      then have "dot_plus_dollar cs" using Cons.IH b b' by auto
      then show ?thesis using b b' by auto
    qed
  qed
qed

lemma slash_rest_iff: "slash_rest cs \<longleftrightarrow> (\<exists>r. cs = CHR ''/'' # r \<and> dot_plus_dollar r)"
  by (cases cs) auto

lemma not_alpha_slash: "\<not> is_alpha (CHR ''/'')"
  by (simp add: is_alpha_def byte_def)

lemma alpha_plus_rest_iff:
  "alpha_plus_rest cs \<longleftrightarrow>
     (\<exists>ls r. cs = ls @ CHR ''/'' # r \<and> ls \<noteq> [] \<and> (\<forall>c\<in>set ls. is_alpha c) \<and> dot_plus_dollar r)"
proof (induction cs)
  case Nil
  then show ?case by simp
next
  case (Cons c cs)
  show ?case
  proof
    assume a: "alpha_plus_rest (c # cs)"
    then have c: "is_alpha c" by simp
    from a have "slash_rest cs \<or> alpha_plus_rest cs" by simp
    then show "\<exists>ls r. c # cs = ls @ CHR ''/'' # r \<and> ls \<noteq> [] \<and> (\<forall>c\<in>set ls. is_alpha c) \<and> dot_plus_dollar r"
    proof
      assume "slash_rest cs"
      then obtain r where "cs = CHR ''/'' # r" "dot_plus_dollar r" using slash_rest_iff by blast
      then have "c # cs = [c] @ CHR ''/'' # r \<and> [c] \<noteq> [] \<and> (\<forall>c\<in>set [c]. is_alpha c) \<and> dot_plus_dollar r"
        using c by simp
      then show ?thesis by blast
    next
      assume "alpha_plus_rest cs"
      then obtain ls r where "cs = ls @ CHR ''/'' # r" "ls \<noteq> []" "\<forall>c\<in>set ls. is_alpha c" "dot_plus_dollar r"
        using Cons.IH by blast
      then have "c # cs = (c # ls) @ CHR ''/'' # r \<and> c # ls \<noteq> [] \<and> (\<forall>c\<in>set (c # ls). is_alpha c) \<and> dot_plus_dollar r"
        using c by simp
      then show ?thesis by blast
    qed
  next
    assume "\<exists>ls r. c # cs = ls @ CHR ''/'' # r \<and> ls \<noteq> [] \<and> (\<forall>c\<in>set ls. is_alpha c) \<and> dot_plus_dollar r"
    then obtain ls r where b: "c # cs = ls @ CHR ''/'' # r" "ls \<noteq> []" "\<forall>c\<in>set ls. is_alpha c" "dot_plus_dollar r"
      by blast
    then obtain ls' where b': "ls = c # ls'" "cs = ls' @ CHR ''/'' # r"
      by (cases ls) auto
    show "alpha_plus_rest (c # cs)"
    proof (cases "ls' = []")
      case True
      then show ?thesis using b b' by auto
    next
      case False
      then have "alpha_plus_rest cs" using Cons.IH b b' by auto
      then show ?thesis using b b' by auto
    qed
  qed
qed

lemma FHIR_REFERENCE_RE_iff:
  "FHIR_REFERENCE_RE s \<longleftrightarrow>
     (\<exists>u ls body nl. s = u # ls @ ''/'' @ body @ nl \<and> is_upper u \<and> ls \<noteq> [] \<and> (\<forall>c\<in>set ls. is_alpha c)
        \<and> body \<noteq> [] \<and> LF \<notin> set body \<and> (nl = [] \<or> nl = [LF]))"
proof (cases s)
  case Nil
  then show ?thesis by simp
next
  case (Cons c cs)
  show ?thesis
    unfolding Cons FHIR_REFERENCE_RE.simps alpha_plus_rest_iff dot_plus_dollar_iff
    by (auto; blast)
qed

subsection \<open>The instant pattern and the clock\<close>

lemma digit_cases: "d < 10 \<Longrightarrow> d \<in> {0, 1, 2, 3, 4, 5, 6, 7, 8, 9::nat}"
  by auto

lemma digit_char_range: "d < 10 \<Longrightarrow> 48 \<le> byte (digit_char d) \<and> byte (digit_char d) \<le> 57"
  using digit_cases[of d] by (auto simp: digit_char_def byte_def)









subsection \<open>UTF-8 and the formatted transcript\<close>



lemma is_ascii_iff: "is_ascii s \<longleftrightarrow> (\<forall>c\<in>set s. byte c < 0x80)"
  by (simp add: is_ascii_def list_all_iff)

lemma is_ascii_Nil [simp]: "is_ascii []"
  by (simp add: is_ascii_def)

lemma is_ascii_Cons: "is_ascii (c # cs) \<longleftrightarrow> byte c < 0x80 \<and> is_ascii cs"
  by (simp add: is_ascii_def)


lemma is_ascii_append [simp]: "is_ascii (xs @ ys) \<longleftrightarrow> is_ascii xs \<and> is_ascii ys"
  by (auto simp: is_ascii_iff)

lemma digits_ascii: "set s \<subseteq> set ''0123456789'' \<Longrightarrow> is_ascii s"
  unfolding is_ascii_iff
proof
  fix c assume "set s \<subseteq> set ''0123456789''" "c \<in> set s"
  then have "c \<in> set ''0123456789''" by blast
  then show "byte c < 0x80" by (auto simp: byte_def)
qed

lemma str_nat_ascii [simp]: "is_ascii (str_nat n)"
  by (rule digits_ascii) (rule str_nat_digits)

lemma str_int_ascii [simp]: "is_ascii (str_int i)"
proof -
  have "byte (CHR ''-'') < 0x80" by (simp add: byte_def)
  then show ?thesis by (simp add: str_int_def is_ascii_Cons)
qed

lemma digit_char_ascii: "d < 10 \<Longrightarrow> is_ascii [digit_char d]"
  using digit_char_range[of d] by (simp add: is_ascii_Cons)

lemma ascii_literals:
  "is_ascii ''-''" "is_ascii ''.''" "is_ascii ''nan''" "is_ascii ''inf''" "is_ascii ''-inf''"
  "is_ascii ''[Speaker ''" "is_ascii '' | ''" "is_ascii ''s-''" "is_ascii ''s] ''" "is_ascii [LF]"
  by (simp_all add: is_ascii_def byte_def)

lemma format_1f_ascii [simp]: "is_ascii (format_1f x)"
proof (cases x)
  case (Finite s m e)
  have "is_ascii ((if s then ''-'' else []) @ str_nat (round_tenths m e div 10) @ ''.''
          @ [digit_char (round_tenths m e mod 10)])"
    unfolding is_ascii_append using ascii_literals by (simp add: digit_char_ascii)
  then show ?thesis using Finite by simp
next
  case (Infinite s)
  then show ?thesis using ascii_literals by simp
next
  case NaN
  then show ?thesis using ascii_literals by simp
qed




section \<open>Properties of the FHIR builder\<close>

subsection \<open>The checks on a built resource\<close>


lemma reference_prefixes:
  "FHIR_REFERENCE_RE (''Patient/'' @ x) = dot_plus_dollar x"
  "FHIR_REFERENCE_RE (''Encounter/'' @ x) = dot_plus_dollar x"
  "FHIR_REFERENCE_RE (''Practitioner/'' @ x) = dot_plus_dollar x"
  by (simp_all add: is_upper_def is_alpha_def byte_def)















subsection \<open>Building and decoding\<close>










subsection \<open>Examples and the one-decimal form\<close>












section \<open>The claims about the FHIR builder\<close>

















section \<open>The claims about the validator and the decoder\<close>

lemma map_of_dict_set: "map_of (dict_set d k v) k' = (if k' = k then Some v else map_of d k')"
  by (induction d k v rule: dict_set.induct) auto

lemma dict_get_dict_set: "dict_get (dict_set d k v) k' dflt = (if k' = k then v else dict_get d k' dflt)"
  by (simp add: dict_get_def map_of_dict_set)

lemma check_refs_entries:
  "check_refs L name i (map ref_entry refs)
     = Inr (concat (map (\<lambda>(j, s). if FHIR_REFERENCE_RE s then [] else [ref_error L name j (PStr s)])
                        (enumerate i refs)))"
  by (induction refs arbitrary: i)
     (simp_all add: ref_entry_def py_get_def match_reference_def ref_error_def del: FHIR_REFERENCE_RE.simps)

lemma check_subject_entry:
  "check_subject L (dict_set doc ''subject'' (ref_entry s))
     = Inr (if s = [] then [''subject.reference is required'']
            else if FHIR_REFERENCE_RE s then []
            else [''subject.reference '' @ repr L (PStr s) @ '' must match '' @ [SQ] @ ''ResourceType/id'' @ [SQ]])"
  by (simp add: check_subject_def dict_get_dict_set ref_entry_def py_get_def match_reference_def
      del: FHIR_REFERENCE_RE.simps)

lemma check_encounters_entries:
  "check_encounters L (dict_set doc ''context'' (PDict [(''encounter'', PList (map ref_entry refs))]))
     = check_refs L ''context.encounter'' 0 (map ref_entry refs)"
  by (simp add: check_encounters_def enc_refs_def dict_get_def map_of_dict_set)

lemma check_authors_entries:
  "check_authors L (dict_set doc ''author'' (PList (map ref_entry refs)))
     = check_refs L ''author'' 0 (map ref_entry refs)"
  by (simp add: check_authors_def dict_get_dict_set)

lemma reference_examples:
  "FHIR_REFERENCE_RE ''Patient/123''" "\<not> FHIR_REFERENCE_RE ''patient/123''"
  "\<not> FHIR_REFERENCE_RE ''Patient-123''" "\<not> FHIR_REFERENCE_RE ''/123''" "\<not> FHIR_REFERENCE_RE []"
  by (simp_all add: is_upper_def is_alpha_def byte_def dollar_def)

text \<open>
  C5 (as stated) fails: \<open>Patient/a\nb\<close> has a capitalized resource type, a slash and at
  least one character after it, and the pattern rejects it; so does it reject
  \<open>Patient2/1\<close>, whose resource type goes on with the word character \<open>2\<close>, and \<open>P/1\<close>.
\<close>

theorem reference_form_counterexample:
  "spec_reference_form (''Patient/a'' @ [LF] @ ''b'') \<and> \<not> FHIR_REFERENCE_RE (''Patient/a'' @ [LF] @ ''b'')
   \<and> spec_reference_form ''Patient2/1'' \<and> \<not> FHIR_REFERENCE_RE ''Patient2/1''
   \<and> spec_reference_form ''P/1'' \<and> \<not> FHIR_REFERENCE_RE ''P/1''"
  by (simp add: is_upper_def is_alpha_def is_word_def is_digit_def byte_def dollar_def)

text \<open>
  C5 (amended). The pattern accepts exactly the strings made of an uppercase ASCII letter,
  one or more ASCII letters, a slash, one or more characters other than the newline, and
  then nothing or one final newline. \<open>Patient/123\<close> is accepted; \<open>patient/123\<close>,
  \<open>Patient-123\<close>, \<open>/123\<close> and the empty string are not. The subject check reports an empty
  reference as required and any other rejected one as not matching; the encounter and
  author checks report, for each index, exactly the entries whose reference is rejected.
\<close>

theorem reference_pattern:
  "(FHIR_REFERENCE_RE s \<longleftrightarrow>
     (\<exists>u ls body nl. s = u # ls @ ''/'' @ body @ nl \<and> is_upper u \<and> ls \<noteq> [] \<and> (\<forall>c\<in>set ls. is_alpha c)
        \<and> body \<noteq> [] \<and> LF \<notin> set body \<and> (nl = [] \<or> nl = [LF])))
   \<and> FHIR_REFERENCE_RE ''Patient/123'' \<and> \<not> FHIR_REFERENCE_RE ''patient/123''
   \<and> \<not> FHIR_REFERENCE_RE ''Patient-123'' \<and> \<not> FHIR_REFERENCE_RE ''/123'' \<and> \<not> FHIR_REFERENCE_RE []
   \<and> check_subject L (dict_set doc ''subject'' (ref_entry s))
        = Inr (if s = [] then [''subject.reference is required'']
               else if FHIR_REFERENCE_RE s then []
               else [''subject.reference '' @ repr L (PStr s) @ '' must match '' @ [SQ] @ ''ResourceType/id'' @ [SQ]])
   \<and> check_encounters L (dict_set doc ''context'' (PDict [(''encounter'', PList (map ref_entry refs))]))
        = Inr (concat (map (\<lambda>(j, s). if FHIR_REFERENCE_RE s then []
                                       else [ref_error L ''context.encounter'' j (PStr s)])
                           (enumerate 0 refs)))
   \<and> check_authors L (dict_set doc ''author'' (PList (map ref_entry refs)))
        = Inr (concat (map (\<lambda>(j, s). if FHIR_REFERENCE_RE s then []
                                       else [ref_error L ''author'' j (PStr s)])
                           (enumerate 0 refs)))"
  using FHIR_REFERENCE_RE_iff[of s] reference_examples check_subject_entry[of L doc s]
    check_encounters_entries[of L doc refs] check_authors_entries[of L doc refs]
    check_refs_entries[of L "''context.encounter''" 0 refs] check_refs_entries[of L "''author''" 0 refs]
  by (simp only: simp_thms)

theorem reference_pattern_witness:
  "FHIR_REFERENCE_RE ''Encounter/e-001''
   \<and> check_subject sample_lib (dict_set sample_doc ''subject'' (ref_entry ''patient/123''))
        = Inr [''subject.reference '' @ [SQ] @ ''patient/123'' @ [SQ] @ '' must match '' @ [SQ] @ ''ResourceType/id'' @ [SQ]]
   \<and> check_authors sample_lib (dict_set sample_doc ''author'' (PList (map ref_entry [''Practitioner/d-1'', ''npi-only''])))
        = Inr [''author[1].reference '' @ [SQ] @ ''npi-only'' @ [SQ] @ '' must match '' @ [SQ] @ ''ResourceType/id'' @ [SQ]]"
proof -
  have e: "''Encounter/e-001'' = CHR ''E'' # ''ncounter'' @ ''/'' @ ''e-001'' @ []" by simp
  have "\<exists>u ls body nl. ''Encounter/e-001'' = u # ls @ ''/'' @ body @ nl \<and> is_upper u \<and> ls \<noteq> []
          \<and> (\<forall>c\<in>set ls. is_alpha c) \<and> body \<noteq> [] \<and> LF \<notin> set body \<and> (nl = [] \<or> nl = [LF])"
    apply (rule exI[of _ "CHR ''E''"], rule exI[of _ "''ncounter''"], rule exI[of _ "''e-001''"], rule exI[of _ "[]"])
    apply (simp add: is_upper_def is_alpha_def byte_def)
    done
  then show ?thesis
    using reference_pattern[where s = "''Encounter/e-001''" and L = sample_lib and doc = sample_doc
        and refs = "[''Practitioner/d-1'', ''npi-only'']"]
      reference_pattern[where s = "''patient/123''" and L = sample_lib and doc = sample_doc and refs = "[]"]
    by (simp add: enumerate_eq_zip ref_error_def sample_lib_def sample_repr_def str_nat.simps digit_char_def
        is_upper_def is_alpha_def byte_def dollar_def)
qed

lemmas check_defs = check_resource_type_def check_status_def check_doc_status_def check_coding_def
  first_coding_def check_subject_def check_date_def check_content_def check_encounters_def
  check_authors_def enc_refs_def dict_get_def py_get_def not_in_strs_def match_reference_def
  match_datetime_def VALID_STATUSES_def VALID_DOC_STATUSES_def LOINC_SYSTEM_def

lemmas eval_defs = check_defs is_upper_def is_alpha_def dollar_def FHIR_DATETIME_RE_def re_digits4_def
  re_digits2_def b64decode_def is_ascii_def a2b_base64_def a2b_def validate_r4_schema_def r4_errors_def
  byte_def

text \<open>
  C9. \<open>validate_r4_schema\<close> passes the sample resource. With its \<open>subject\<close> replaced by a
  string, with a string as the entry of its \<open>content\<close> list, or with a string as the entry
  of an \<open>author\<close> list, validation ends with an \<open>AttributeError\<close>, not with the aggregated
  validation error.
\<close>

theorem validate_raises_on_wrong_shapes:
  "validate_r4_schema L sample_doc = Inr ()
   \<and> validate_r4_schema L (dict_set sample_doc ''subject'' (PStr ''Patient/p-001'')) = Inl AttributeError
   \<and> validate_r4_schema L (dict_set sample_doc ''content'' (PList [PStr ''aGk=''])) = Inl AttributeError
   \<and> validate_r4_schema L (dict_set sample_doc ''author'' (PList [PStr ''Practitioner/d-1'']))
       = Inl AttributeError"
proof (intro conjI)
  show "validate_r4_schema L sample_doc = Inr ()"
    by (simp add: sample_doc_def eval_defs)
  show "validate_r4_schema L (dict_set sample_doc ''subject'' (PStr ''Patient/p-001'')) = Inl AttributeError"
    by (simp add: sample_doc_def eval_defs)
  show "validate_r4_schema L (dict_set sample_doc ''content'' (PList [PStr ''aGk=''])) = Inl AttributeError"
    by (simp add: sample_doc_def eval_defs utf8_len_def)
  show "validate_r4_schema L (dict_set sample_doc ''author'' (PList [PStr ''Practitioner/d-1'']))
       = Inl AttributeError"
    by (simp add: sample_doc_def eval_defs)
qed

theorem validate_raises_on_wrong_shapes_witness:
  "validate_r4_schema sample_lib (dict_set sample_doc ''subject'' (PStr ''Patient/p-001'')) = Inl AttributeError"
  using validate_raises_on_wrong_shapes[of sample_lib] by simp

















end
